theory Spec2Isabelle
  imports Main "HOL-Library.Sublist"
begin

section \<open>Data model\<close>

text \<open>
  The program (\<^verbatim>\<open>src/app.py\<close>) loads a CSV file into a pandas DataFrame, narrows it
  with up to three equality filters, replaces missing cells and returns the rows as
  JSON text. The embedding keeps the DataFrame operations the program calls as HOL
  functions over an explicit table.

  A cell is missing (pandas \<^verbatim>\<open>NaN\<close>), an integer, a float, a boolean or a string.
  Integers are unbounded, as Python's are. A float is kept as the decimal it reads
  and prints as: \<open>Flt m d\<close> is \<open>m / 10 ^ d\<close>, so \<open>Flt 2020 0\<close> is \<^verbatim>\<open>2020.0\<close> and
  \<open>Flt 15 1\<close> is \<^verbatim>\<open>1.5\<close>; infinities, and floats that need more than ten fractional
  digits or an exponent to print, are outside the model (\<open>loaded\<close> below excludes them). A character is a code point
  below 256.
\<close>

datatype cell = NaN | Num int | Flt int nat | Bool bool | Str string

text \<open>
  A DataFrame: the column labels in file order and the rows in file order, each row
  holding one cell per column.
\<close>

record dataframe =
  columns :: "string list"
  rows :: "cell list list"








section \<open>Exceptions\<close>

text \<open>
  The exceptions the program can meet: a failed load (any exception \<^verbatim>\<open>read_csv\<close>
  raises, kept by its description), the \<^verbatim>\<open>KeyError\<close> of a column lookup, and the
  \<^verbatim>\<open>ValueError\<close> the program raises itself. \<open>str_exn\<close> is Python's \<^verbatim>\<open>str(e)\<close>:
  a \<^verbatim>\<open>KeyError\<close> prints the \<^verbatim>\<open>repr\<close> of its key, so the label comes out in single
  quotes.
\<close>

datatype exn = LoadError string | KeyError string | ValueError string

fun str_exn :: "exn \<Rightarrow> string" where
  "str_exn (LoadError d) = d"
| "str_exn (KeyError k) = CHR 0x27 # k @ [CHR 0x27]"
| "str_exn (ValueError m) = m"

section \<open>JSON documents and their text\<close>

text \<open>
  A number is written either as an integer (\<open>JNum\<close>) or with a decimal point
  (\<open>JFlt m d\<close>, the decimal \<open>m / 10 ^ d\<close>).
\<close>

datatype json =
    JNull
  | JBool bool
  | JNum int
  | JFlt int nat
  | JStr string
  | JArr "json list"
  | JObj "(string \<times> json) list"

definition digit_char :: "nat \<Rightarrow> char" where
  "digit_char d = ''0123456789abcdef'' ! d"

text \<open>Decimal digits of a number that is not negative.\<close>

function digits :: "int \<Rightarrow> string" where
  "digits n =
     (if n < 10 then [digit_char (nat n)]
      else digits (n div 10) @ [digit_char (nat (n mod 10))])"
  by pat_completeness auto
termination
  by (relation "measure nat") auto

definition str_nat :: "nat \<Rightarrow> string" where
  "str_nat n = digits (int n)"

definition str_int :: "int \<Rightarrow> string" where
  "str_int i = (if i < 0 then CHR ''-'' # digits (- i) else digits i)"

text \<open>
  A float as the serializer writes it: the whole part, a point, and the fractional
  digits without trailing zeros, but at least one digit, so that \<^verbatim>\<open>7.0\<close> keeps its
  point.
\<close>

primrec fixed_digits :: "nat \<Rightarrow> int \<Rightarrow> string" where
  "fixed_digits 0 n = []"
| "fixed_digits (Suc d) n = fixed_digits d (n div 10) @ [digit_char (nat (n mod 10))]"

definition fraction_text :: "nat \<Rightarrow> int \<Rightarrow> string" where
  "fraction_text d n =
     (let ds = rev (dropWhile (\<lambda>c. c = CHR ''0'') (rev (fixed_digits d n)))
      in if ds = [] then ''0'' else ds)"

definition float_text :: "int \<Rightarrow> nat \<Rightarrow> string" where
  "float_text m d =
     (if m < 0 then ''-'' else []) @
     digits (\<bar>m\<bar> div 10 ^ d) @ ''.'' @ fraction_text d (\<bar>m\<bar> mod 10 ^ d)"

text \<open>
  String escaping of the pandas serializer with its defaults (\<^verbatim>\<open>force_ascii=True\<close>):
  the quote, the backslash and the slash are escaped with a backslash, the five
  control characters with a short form have it, and every other character below
  0x20 or from 0x80 on is written \<^verbatim>\<open>\u00XX\<close>.
\<close>

definition escape_char :: "char \<Rightarrow> string" where
  "escape_char c =
     (if c = CHR 0x22 then [CHR 0x5C, CHR 0x22]
      else if c = CHR 0x5C then [CHR 0x5C, CHR 0x5C]
      else if c = CHR ''/'' then [CHR 0x5C, CHR ''/'']
      else if c = CHR 0x08 then [CHR 0x5C, CHR ''b'']
      else if c = CHR 0x09 then [CHR 0x5C, CHR ''t'']
      else if c = CHR 0x0A then [CHR 0x5C, CHR ''n'']
      else if c = CHR 0x0C then [CHR 0x5C, CHR ''f'']
      else if c = CHR 0x0D then [CHR 0x5C, CHR ''r'']
      else if (of_char c :: nat) < 0x20 \<or> 0x80 \<le> (of_char c :: nat)
        then [CHR 0x5C, CHR ''u'', CHR ''0'', CHR ''0'',
              digit_char (of_char c div 16), digit_char (of_char c mod 16)]
      else [c])"

definition quote :: "string \<Rightarrow> string" where
  "quote s = CHR 0x22 # concat (map escape_char s) @ [CHR 0x22]"

fun join :: "string \<Rightarrow> string list \<Rightarrow> string" where
  "join sep [] = []"
| "join sep [x] = x"
| "join sep (x # y # ys) = x @ sep @ join sep (y # ys)"

fun json_text :: "json \<Rightarrow> string" where
  "json_text JNull = ''null''"
| "json_text (JBool b) = (if b then ''true'' else ''false'')"
| "json_text (JNum n) = str_int n"
| "json_text (JFlt m d) = float_text m d"
| "json_text (JStr s) = quote s"
| "json_text (JArr xs) = ''['' @ join '','' (map json_text xs) @ '']''"
| "json_text (JObj kvs) =
     ''{'' @ join '','' (map (\<lambda>(k, v). quote k @ '':'' @ json_text v) kvs) @ ''}''"

fun is_array :: "json \<Rightarrow> bool" where
  "is_array (JArr xs) = True"
| "is_array j = False"

section \<open>Python values\<close>

datatype py_value =
    PyNone
  | PyInt int
  | PyStr string
  | PyDict "(string \<times> py_value) list"
  | PyTuple "py_value list"

section \<open>The DataFrame operations the program calls\<close>

fun index_of :: "string list \<Rightarrow> string \<Rightarrow> nat option" where
  "index_of [] c = None"
| "index_of (x # xs) c = (if x = c then Some 0 else map_option Suc (index_of xs c))"

text \<open>\<^verbatim>\<open>df[c]\<close>: the column as a series, or \<^verbatim>\<open>KeyError(c)\<close> when no column has the label.\<close>

definition getitem :: "dataframe \<Rightarrow> string \<Rightarrow> exn + cell list" where
  "getitem df c =
     (case index_of (columns df) c of
        None \<Rightarrow> Inl (KeyError c)
      | Some i \<Rightarrow> Inr (map (\<lambda>r. r ! i) (rows df)))"

text \<open>
  One comparison of \<^verbatim>\<open>series == value\<close>, the value being the Python integer or string
  of the query. Against an integer, an integer cell is equal when it is that integer,
  a float when its value is, and a boolean as Python's \<^verbatim>\<open>True == 1\<close> and
  \<^verbatim>\<open>False == 0\<close>; against a string, only the same string is equal. A missing cell is
  equal to nothing, and a number is never equal to a string.
\<close>

fun cell_eq :: "cell \<Rightarrow> py_value \<Rightarrow> bool" where
  "cell_eq (Num n) (PyInt y) = (n = y)"
| "cell_eq (Flt m d) (PyInt y) = (m = y * 10 ^ d)"
| "cell_eq (Bool b) (PyInt y) = (y = (if b then 1 else 0))"
| "cell_eq (Str s) (PyStr t) = (s = t)"
| "cell_eq x v = False"

definition series_eq :: "cell list \<Rightarrow> py_value \<Rightarrow> bool list" where
  "series_eq s v = map (\<lambda>x. cell_eq x v) s"

text \<open>\<^verbatim>\<open>df[mask]\<close>: the rows whose mask entry is true, in order.\<close>

definition boolean_index :: "dataframe \<Rightarrow> bool list \<Rightarrow> dataframe" where
  "boolean_index df msk = df\<lparr>rows := map fst (filter snd (zip (rows df) msk))\<rparr>"

text \<open>\<^verbatim>\<open>df[df[c] == v]\<close>, the expression of lines 17, 20 and 23.\<close>

definition filter_eq :: "dataframe \<Rightarrow> string \<Rightarrow> py_value \<Rightarrow> exn + dataframe" where
  "filter_eq df c v =
     (case getitem df c of
        Inl e \<Rightarrow> Inl e
      | Inr s \<Rightarrow> Inr (boolean_index df (series_eq s v)))"

definition fillna_cell :: "cell \<Rightarrow> cell \<Rightarrow> cell" where
  "fillna_cell v x = (if x = NaN then v else x)"

definition fillna :: "cell \<Rightarrow> dataframe \<Rightarrow> dataframe" where
  "fillna v df = df\<lparr>rows := map (map (fillna_cell v)) (rows df)\<rparr>"

text \<open>\<^verbatim>\<open>df.shape[0]\<close> and \<^verbatim>\<open>df.empty\<close> (true when either axis has length zero).\<close>

definition shape0 :: "dataframe \<Rightarrow> nat" where
  "shape0 df = length (rows df)"

definition df_empty :: "dataframe \<Rightarrow> bool" where
  "df_empty df \<longleftrightarrow> rows df = [] \<or> columns df = []"

text \<open>
  \<^verbatim>\<open>to_json(orient='records')\<close>: one object per row, the column labels as keys, and
  the whole array written out as text. A missing cell would be written \<^verbatim>\<open>null\<close>, an
  integer without a point, a float with one, a boolean as \<^verbatim>\<open>true\<close> or \<^verbatim>\<open>false\<close>.
\<close>

fun cell_json :: "cell \<Rightarrow> json" where
  "cell_json NaN = JNull"
| "cell_json (Num n) = JNum n"
| "cell_json (Flt m d) = JFlt m d"
| "cell_json (Bool b) = JBool b"
| "cell_json (Str s) = JStr s"

definition record_of :: "string list \<Rightarrow> cell list \<Rightarrow> json" where
  "record_of cols r = JObj (zip cols (map cell_json r))"

definition records :: "dataframe \<Rightarrow> json list" where
  "records df = map (record_of (columns df)) (rows df)"

definition to_json :: "dataframe \<Rightarrow> string" where
  "to_json df = json_text (JArr (records df))"

section \<open>The outside world and effects\<close>

text \<open>
  The world a request runs in: what \<^verbatim>\<open>read_csv\<close> of the fixed URL yields at this
  moment (the parsed table, or the exception of a failed fetch or parse) and the lines
  printed so far.
\<close>

record world =
  remote_csv :: "exn + dataframe"
  stdout :: "string list"

text \<open>
  A statement runs in a world and either raises (\<open>Inl\<close>) or yields a value
  (\<open>Inr\<close>), leaving a world behind in both cases.
\<close>

type_synonym 'a io = "world \<Rightarrow> (exn + 'a) \<times> world"

definition return_io :: "'a \<Rightarrow> 'a io" where
  "return_io x w = (Inr x, w)"

definition raise_io :: "exn \<Rightarrow> 'a io" where
  "raise_io e w = (Inl e, w)"

definition bind_io :: "'a io \<Rightarrow> ('a \<Rightarrow> 'b io) \<Rightarrow> 'b io" where
  "bind_io m f w = (case m w of (Inl e, w') \<Rightarrow> (Inl e, w') | (Inr x, w') \<Rightarrow> f x w')"

definition lift_io :: "exn + 'a \<Rightarrow> 'a io" where
  "lift_io r w = (r, w)"

text \<open>\<^verbatim>\<open>try: m except Exception as e: h(e)\<close>\<close>

definition try_except :: "'a io \<Rightarrow> (exn \<Rightarrow> 'a io) \<Rightarrow> 'a io" where
  "try_except m h w = (case m w of (Inl e, w') \<Rightarrow> h e w' | (Inr x, w') \<Rightarrow> (Inr x, w'))"

definition py_print :: "string \<Rightarrow> unit io" where
  "py_print s w = (Inr (), w\<lparr>stdout := stdout w @ [s]\<rparr>)"

definition read_csv :: "dataframe io" where
  "read_csv w = (remote_csv w, w)"

section \<open>The program\<close>

text \<open>The dictionary \<^verbatim>\<open>{'error': str(e)}\<close> of lines 34 and 49.\<close>

definition error_dict :: "exn \<Rightarrow> py_value" where
  "error_dict e = PyDict [(''error'', PyStr (str_exn e))]"

definition no_data :: exn where
  "no_data = ValueError ''No data found for the specified filters.''"

text \<open>Lines 15 to 23: the three optional filters, in the order of the source.\<close>

definition apply_filters ::
  "int option \<Rightarrow> string option \<Rightarrow> string option \<Rightarrow> dataframe \<Rightarrow> dataframe io" where
  "apply_filters year country market df =
     bind_io
       (case year of
          None \<Rightarrow> return_io df
        | Some y \<Rightarrow>
            bind_io (py_print ''Filtering by year'')
              (\<lambda>_. lift_io (filter_eq df ''year'' (PyInt y))))
       (\<lambda>df.
     bind_io
       (case country of
          None \<Rightarrow> return_io df
        | Some c \<Rightarrow>
            bind_io (py_print ''Filtering by country'')
              (\<lambda>_. lift_io (filter_eq df ''country'' (PyStr c))))
       (\<lambda>df.
       (case market of
          None \<Rightarrow> return_io df
        | Some m \<Rightarrow>
            bind_io (py_print ''Filtering by market'')
              (\<lambda>_. lift_io (filter_eq df ''mkt_name'' (PyStr m))))))"

text \<open>Lines 13 to 32: the body of the \<^verbatim>\<open>try\<close> block of \<^verbatim>\<open>fetch_data\<close>.\<close>

definition fetch_data_try ::
  "int option \<Rightarrow> string option \<Rightarrow> string option \<Rightarrow> py_value io" where
  "fetch_data_try year country market =
     bind_io read_csv (\<lambda>df.
     bind_io (py_print (str_nat (shape0 df))) (\<lambda>_.
     bind_io (apply_filters year country market df) (\<lambda>df.
     let df_filter = fillna (Str []) df in
     bind_io (py_print (str_nat (shape0 df_filter))) (\<lambda>_.
     if df_empty df_filter then raise_io no_data
     else return_io (PyStr (to_json df_filter))))))"

definition fetch_data :: "int option \<Rightarrow> string option \<Rightarrow> string option \<Rightarrow> py_value io" where
  "fetch_data year country market =
     try_except (fetch_data_try year country market) (\<lambda>e. return_io (error_dict e))"

text \<open>Lines 42 to 47, the body of the endpoint's \<^verbatim>\<open>try\<close> block, and the endpoint.\<close>

definition fetch_data_api_try ::
  "int option \<Rightarrow> string option \<Rightarrow> string option \<Rightarrow> py_value io" where
  "fetch_data_api_try year country market =
     bind_io (fetch_data year country market) (\<lambda>filtered_data.
     if filtered_data = PyNone then raise_io no_data
     else return_io filtered_data)"

definition fetch_data_api ::
  "int option \<Rightarrow> string option \<Rightarrow> string option \<Rightarrow> py_value io" where
  "fetch_data_api year country market =
     try_except (fetch_data_api_try year country market)
       (\<lambda>e. return_io (PyTuple [error_dict e, PyInt 400]))"

section \<open>The HTTP response\<close>

text \<open>
  The web framework sends whatever the endpoint returns through its JSON encoder: a
  Python string becomes a JSON string, a dictionary an object, a tuple an array. An
  exception that leaves the endpoint is an unhandled fault (\<open>Inl\<close>).
\<close>

fun jsonable :: "py_value \<Rightarrow> json" where
  "jsonable PyNone = JNull"
| "jsonable (PyInt n) = JNum n"
| "jsonable (PyStr s) = JStr s"
| "jsonable (PyDict kvs) = JObj (map (\<lambda>(k, v). (k, jsonable v)) kvs)"
| "jsonable (PyTuple vs) = JArr (map jsonable vs)"

definition http_body :: "py_value io \<Rightarrow> world \<Rightarrow> exn + json" where
  "http_body handler w = (case fst (handler w) of Inl e \<Rightarrow> Inl e | Inr v \<Rightarrow> Inr (jsonable v))"

definition error_body :: "string \<Rightarrow> json" where
  "error_body msg = JObj [(''error'', JStr msg)]"

section \<open>Vocabulary of the claims\<close>

text \<open>
  The notions the claims are stated in are defined here on their own, without the
  functions of the program above.

  The number a cell stands for, as a decimal \<open>m / 10 ^ d\<close>: an integer or a float is
  its value, a boolean is 1 or 0, a string or a missing cell is no number. A cell
  numerically equals the integer \<open>y\<close> when it stands for a number and that number
  is \<open>y\<close>.
\<close>

fun number_of :: "cell \<Rightarrow> (int \<times> nat) option" where
  "number_of (Num n) = Some (n, 0)"
| "number_of (Flt m d) = Some (m, d)"
| "number_of (Bool b) = Some (if b then 1 else 0, 0)"
| "number_of (Str s) = None"
| "number_of NaN = None"

definition numerically_equal :: "cell \<Rightarrow> int \<Rightarrow> bool" where
  "numerically_equal x y \<longleftrightarrow> (case number_of x of None \<Rightarrow> False | Some (m, d) \<Rightarrow> m = y * 10 ^ d)"

text \<open>
  The year criterion holds of a row when no year is given, or the table has a
  \<open>year\<close> column and the row's cell there numerically equals the year. A text
  criterion on column \<open>c\<close> holds when no text is given, or the table has the column
  and the row's cell there is that string.
\<close>

definition year_ok :: "dataframe \<Rightarrow> int option \<Rightarrow> cell list \<Rightarrow> bool" where
  "year_ok df year r =
     (case year of
        None \<Rightarrow> True
      | Some y \<Rightarrow>
          (case index_of (columns df) ''year'' of
             None \<Rightarrow> False
           | Some i \<Rightarrow> numerically_equal (r ! i) y))"

definition text_ok :: "dataframe \<Rightarrow> string \<Rightarrow> string option \<Rightarrow> cell list \<Rightarrow> bool" where
  "text_ok df c p r =
     (case p of
        None \<Rightarrow> True
      | Some t \<Rightarrow> (case index_of (columns df) c of None \<Rightarrow> False | Some i \<Rightarrow> r ! i = Str t))"

definition row_matches ::
  "dataframe \<Rightarrow> int option \<Rightarrow> string option \<Rightarrow> string option \<Rightarrow> cell list \<Rightarrow> bool" where
  "row_matches df year country market r \<longleftrightarrow>
     year_ok df year r \<and> text_ok df ''country'' country r \<and> text_ok df ''mkt_name'' market r"

text \<open>Every criterion that is given names a column of the table.\<close>

definition provided :: "dataframe \<Rightarrow> string \<Rightarrow> 'a option \<Rightarrow> bool" where
  "provided df c p \<longleftrightarrow> p = None \<or> c \<in> set (columns df)"

definition columns_present ::
  "dataframe \<Rightarrow> int option \<Rightarrow> string option \<Rightarrow> string option \<Rightarrow> bool" where
  "columns_present df year country market \<longleftrightarrow>
     provided df ''year'' year \<and> provided df ''country'' country \<and>
     provided df ''mkt_name'' market"

text \<open>
  The first criterion, in the order year, country, market, that is given although the
  table has no column for it.
\<close>

definition missing_column ::
  "dataframe \<Rightarrow> int option \<Rightarrow> string option \<Rightarrow> string option \<Rightarrow> string option" where
  "missing_column df year country market =
     (if \<not> provided df ''year'' year then Some ''year''
      else if \<not> provided df ''country'' country then Some ''country''
      else if \<not> provided df ''mkt_name'' market then Some ''mkt_name''
      else None)"

text \<open>
  The lines a request prints between the two row counts: one line per criterion given,
  in the order year, country, market.
\<close>

definition filter_lines :: "int option \<Rightarrow> string option \<Rightarrow> string option \<Rightarrow> string list" where
  "filter_lines year country market =
     (if year = None then [] else [''Filtering by year'']) @
     (if country = None then [] else [''Filtering by country'']) @
     (if market = None then [] else [''Filtering by market''])"




text \<open>The table of the specification's concrete scenario, and a world holding it.\<close>

definition scenario :: dataframe where
  "scenario =
     \<lparr>columns = [''year'', ''country'', ''mkt_name''],
      rows = [[Num 2020, Str ''USA'', Str ''Retail''],
              [Num 2021, Str ''USA'', Str ''Retail'']]\<rparr>"

definition scenario_world :: world where
  "scenario_world = \<lparr>remote_csv = Inr scenario, stdout = []\<rparr>"

text \<open>A world whose load fails, and one whose table has no \<open>year\<close> column.\<close>

definition load_failure_world :: world where
  "load_failure_world = \<lparr>remote_csv = Inl (LoadError ''HTTP Error 404: Not Found''), stdout = []\<rparr>"

definition no_year_world :: world where
  "no_year_world =
     \<lparr>remote_csv = Inr \<lparr>columns = [''country'', ''mkt_name''], rows = [[Str ''USA'', Str ''Retail'']]\<rparr>,
      stdout = []\<rparr>"




text \<open>
  A table with missing cells: the first row has no country and no price, the second
  has the empty string as its country.
\<close>

definition gaps :: dataframe where
  "gaps =
     \<lparr>columns = [''year'', ''country'', ''mkt_name'', ''price''],
      rows = [[Num 2020, NaN, Str ''Retail'', NaN],
              [Num 2021, Str [], Str ''Retail'', Flt 7 0]]\<rparr>"

definition gaps_world :: world where
  "gaps_world = \<lparr>remote_csv = Inr gaps, stdout = []\<rparr>"

section \<open>Basic facts\<close>

lemma index_of_Some_iff: "(\<exists>i. index_of cs c = Some i) \<longleftrightarrow> c \<in> set cs"
  by (induction cs) auto

lemma index_of_None_iff: "index_of cs c = None \<longleftrightarrow> c \<notin> set cs"
  by (induction cs) auto

lemma index_of_first:
  "index_of cs c = Some i \<Longrightarrow> i < length cs \<and> cs ! i = c \<and> c \<notin> set (take i cs)"
proof (induction cs arbitrary: i)
  case Nil
  then show ?case by simp
next
  case (Cons x xs)
  show ?case
  proof (cases "x = c")
    case True
    with Cons.prems show ?thesis by simp
  next
    case False
    with Cons.prems obtain j where j: "index_of xs c = Some j" "i = Suc j"
      by auto
    from Cons.IH [OF j(1)] False j(2) show ?thesis by simp
  qed
qed

lemma filter_mask: "map fst (filter snd (zip xs (map P xs))) = filter P xs"
  by (induction xs) auto

lemma filter_eq_Some:
  "index_of (columns df) c = Some i \<Longrightarrow>
   filter_eq df c v = Inr (df\<lparr>rows := filter (\<lambda>r. cell_eq (r ! i) v) (rows df)\<rparr>)"
proof -
  assume i: "index_of (columns df) c = Some i"
  have "series_eq (map (\<lambda>r. r ! i) (rows df)) v = map (\<lambda>r. cell_eq (r ! i) v) (rows df)"
    by (simp add: series_eq_def comp_def)
  then show ?thesis
    using i by (simp add: filter_eq_def getitem_def boolean_index_def filter_mask)
qed

lemma filter_eq_None:
  "index_of (columns df) c = None \<Longrightarrow> filter_eq df c v = Inl (KeyError c)"
  by (simp add: filter_eq_def getitem_def)

text \<open>The comparison of the program agrees with the equalities the claims speak of.\<close>

lemma cell_eq_int: "cell_eq x (PyInt y) = numerically_equal x y"
  by (cases x) (simp_all add: numerically_equal_def)

lemma cell_eq_str: "cell_eq x (PyStr t) = (x = Str t)"
  by (cases x) auto


declare digits.simps [simp del]

lemmas io_defs = bind_io_def return_io_def raise_io_def lift_io_def try_except_def py_print_def read_csv_def

lemma apply_filters_fst:
 "fst (apply_filters year country market df w) =
   (case (case year of None \<Rightarrow> Inr df | Some y \<Rightarrow> filter_eq df ''year'' (PyInt y)) of
      Inl e \<Rightarrow> Inl e
    | Inr df1 \<Rightarrow>
     (case (case country of None \<Rightarrow> Inr df1 | Some c \<Rightarrow> filter_eq df1 ''country'' (PyStr c)) of
        Inl e \<Rightarrow> Inl e
      | Inr df2 \<Rightarrow>
        (case market of None \<Rightarrow> Inr df2 | Some m \<Rightarrow> filter_eq df2 ''mkt_name'' (PyStr m))))"
  by (simp add: apply_filters_def io_defs split: option.splits sum.splits)

lemma apply_filters_remote:
  "remote_csv (snd (apply_filters year country market df w)) = remote_csv w"
  by (simp add: apply_filters_def io_defs split: option.splits sum.splits)

lemma year_ok_rows_update [simp]: "year_ok (df\<lparr>rows := rs\<rparr>) year = year_ok df year"
  by (rule ext) (simp add: year_ok_def split: option.splits)

lemma text_ok_rows_update [simp]: "text_ok (df\<lparr>rows := rs\<rparr>) c p = text_ok df c p"
  by (rule ext) (simp add: text_ok_def split: option.splits)

lemma year_step:
  assumes "year = None \<or> ''year'' \<in> set (columns df)"
  shows "(case year of None \<Rightarrow> Inr df | Some y \<Rightarrow> filter_eq df ''year'' (PyInt y)) =
           Inr (df\<lparr>rows := filter (year_ok df year) (rows df)\<rparr>)"
proof (cases year)
  case None
  then show ?thesis by (simp add: year_ok_def)
next
  case (Some y)
  with assms obtain i where i: "index_of (columns df) ''year'' = Some i"
    using index_of_Some_iff by fastforce
  have "year_ok df (Some y) = (\<lambda>r. cell_eq (r ! i) (PyInt y))"
    by (rule ext) (simp add: year_ok_def i cell_eq_int)
  with Some i show ?thesis by (simp add: filter_eq_Some)
qed

lemma text_step:
  assumes "p = None \<or> c \<in> set (columns df)"
  shows "(case p of None \<Rightarrow> Inr df | Some t \<Rightarrow> filter_eq df c (PyStr t)) =
           Inr (df\<lparr>rows := filter (text_ok df c p) (rows df)\<rparr>)"
proof (cases p)
  case None
  then show ?thesis by (simp add: text_ok_def)
next
  case (Some t)
  with assms obtain i where i: "index_of (columns df) c = Some i"
    using index_of_Some_iff by fastforce
  have "text_ok df c (Some t) = (\<lambda>r. cell_eq (r ! i) (PyStr t))"
    by (rule ext) (simp add: text_ok_def i cell_eq_str)
  with Some i show ?thesis by (simp add: filter_eq_Some)
qed

lemma row_matches_filter:
  "filter (row_matches df year country market) xs =
   filter (text_ok df ''mkt_name'' market)
     (filter (text_ok df ''country'' country)
       (filter (year_ok df year) xs))"
  by (induction xs) (auto simp: row_matches_def)

text \<open>
  With every needed column present, the three filters leave the rows that satisfy all
  criteria and print one line per criterion given, in the order of the source.
\<close>

lemma apply_filters_run:
  assumes "columns_present df year country market"
  shows "apply_filters year country market df w =
           (Inr (df\<lparr>rows := filter (row_matches df year country market) (rows df)\<rparr>),
            w\<lparr>stdout := stdout w @ filter_lines year country market\<rparr>)"
proof -
  define df1 where
    "df1 = df\<lparr>rows := filter (year_ok df year) (rows df)\<rparr>"
  define df2 where
    "df2 = df1\<lparr>rows := filter (text_ok df1 ''country'' country) (rows df1)\<rparr>"
  define df3 where
    "df3 = df2\<lparr>rows := filter (text_ok df2 ''mkt_name'' market) (rows df2)\<rparr>"
  have cols: "columns df1 = columns df" "columns df2 = columns df"
    by (simp_all add: df1_def df2_def)
  have y: "year = None \<or> ''year'' \<in> set (columns df)"
    and c: "country = None \<or> ''country'' \<in> set (columns df1)"
    and m: "market = None \<or> ''mkt_name'' \<in> set (columns df2)"
    using assms by (auto simp: cols columns_present_def provided_def)
  have 1: "(case year of None \<Rightarrow> Inr df | Some y \<Rightarrow> filter_eq df ''year'' (PyInt y)) = Inr df1"
    unfolding df1_def using y by (rule year_step)
  have 2: "(case country of None \<Rightarrow> Inr df1 | Some t \<Rightarrow> filter_eq df1 ''country'' (PyStr t)) = Inr df2"
    unfolding df2_def using c by (rule text_step)
  have 3: "(case market of None \<Rightarrow> Inr df2 | Some t \<Rightarrow> filter_eq df2 ''mkt_name'' (PyStr t)) = Inr df3"
    unfolding df3_def using m by (rule text_step)
  have "apply_filters year country market df w =
          (Inr df3, w\<lparr>stdout := stdout w @ filter_lines year country market\<rparr>)"
    using 1 2 3
    by (cases year; cases country; cases market)
       (simp_all add: apply_filters_def io_defs filter_lines_def)
  moreover have "df3 = df\<lparr>rows := filter (row_matches df year country market) (rows df)\<rparr>"
    by (simp add: df3_def df2_def df1_def row_matches_filter)
  ultimately show ?thesis by simp
qed

lemma apply_filters_ok:
  assumes "columns_present df year country market"
  shows "fst (apply_filters year country market df w) =
           Inr (df\<lparr>rows := filter (row_matches df year country market) (rows df)\<rparr>)"
  by (simp add: apply_filters_run [OF assms])

lemma missing_column_None:
  "missing_column df year country market = None \<longleftrightarrow> columns_present df year country market"
  by (simp add: missing_column_def columns_present_def)

lemma apply_filters_missing:
  assumes "missing_column df year country market = Some k"
  shows "fst (apply_filters year country market df w) = Inl (KeyError k)"
proof -
  define df1 where
    "df1 = df\<lparr>rows := filter (year_ok df year) (rows df)\<rparr>"
  define df2 where
    "df2 = df1\<lparr>rows := filter (text_ok df1 ''country'' country) (rows df1)\<rparr>"
  have cols: "columns df1 = columns df" "columns df2 = columns df"
    by (simp_all add: df1_def df2_def)
  consider (y) "\<not> provided df ''year'' year" "k = ''year''"
    | (c) "provided df ''year'' year" "\<not> provided df ''country'' country" "k = ''country''"
    | (m) "provided df ''year'' year" "provided df ''country'' country"
          "\<not> provided df ''mkt_name'' market" "k = ''mkt_name''"
    using assms by (auto simp: missing_column_def split: if_splits)
  then show ?thesis
  proof cases
    case y
    then obtain v where "year = Some v" "index_of (columns df) ''year'' = None"
      by (auto simp: provided_def index_of_None_iff)
    with y show ?thesis by (simp add: apply_filters_fst filter_eq_None)
  next
    case c
    have 1: "(case year of None \<Rightarrow> Inr df | Some y \<Rightarrow> filter_eq df ''year'' (PyInt y)) = Inr df1"
      unfolding df1_def using c(1) by (intro year_step) (auto simp: provided_def)
    from c obtain v where "country = Some v" "index_of (columns df1) ''country'' = None"
      by (auto simp: provided_def index_of_None_iff cols)
    with c show ?thesis by (simp only: apply_filters_fst 1 sum.case) (simp add: filter_eq_None)
  next
    case m
    have 1: "(case year of None \<Rightarrow> Inr df | Some y \<Rightarrow> filter_eq df ''year'' (PyInt y)) = Inr df1"
      unfolding df1_def using m(1) by (intro year_step) (auto simp: provided_def)
    have 2: "(case country of None \<Rightarrow> Inr df1 | Some t \<Rightarrow> filter_eq df1 ''country'' (PyStr t)) = Inr df2"
      unfolding df2_def using m(2) by (intro text_step) (auto simp: provided_def cols)
    from m obtain v where "market = Some v" "index_of (columns df2) ''mkt_name'' = None"
      by (auto simp: provided_def index_of_None_iff cols)
    with m show ?thesis by (simp only: apply_filters_fst 1 2 sum.case) (simp add: filter_eq_None)
  qed
qed

lemma fst_bind_io:
  "fst (bind_io m f w) = (case m w of (Inl e, w') \<Rightarrow> Inl e | (Inr x, w') \<Rightarrow> fst (f x w'))"
  by (simp add: bind_io_def split: prod.splits sum.splits)

lemma apply_filters_world: 
  "fst (apply_filters year country market df w) = fst (apply_filters year country market df w')"
  by (simp only: apply_filters_fst)

lemma fetch_data_try_fst:
  "fst (fetch_data_try year country market w) =
     (case remote_csv w of
        Inl e \<Rightarrow> Inl e
      | Inr df \<Rightarrow>
          (case fst (apply_filters year country market df w) of
             Inl e \<Rightarrow> Inl e
           | Inr df' \<Rightarrow>
               if df_empty (fillna (Str []) df') then Inl no_data
               else Inr (PyStr (to_json (fillna (Str []) df')))))"
proof (cases "remote_csv w")
  case (Inl e)
  then show ?thesis by (simp add: fetch_data_try_def io_defs)
next
  case (Inr df)
  define w1 where "w1 = snd (py_print (str_nat (shape0 df)) w)"
  obtain r w2 where r: "apply_filters year country market df w1 = (r, w2)"
    by (cases "apply_filters year country market df w1")
  have "fst (apply_filters year country market df w) = fst (apply_filters year country market df w1)"
    by (rule apply_filters_world)
  with r have w: "fst (apply_filters year country market df w) = r" by simp
  have "fetch_data_try year country market w =
          bind_io (apply_filters year country market df) (\<lambda>df.
            let df_filter = fillna (Str []) df in
            bind_io (py_print (str_nat (shape0 df_filter))) (\<lambda>_.
            if df_empty df_filter then raise_io no_data
            else return_io (PyStr (to_json df_filter)))) w1"
    using Inr by (simp add: fetch_data_try_def bind_io_def read_csv_def py_print_def w1_def)
  then show ?thesis
    using Inr r by (simp add: w io_defs Let_def split: sum.splits)
qed

lemma fetch_data_try_result:
  "fst (fetch_data_try year country market w) =
     (case remote_csv w of
        Inl e \<Rightarrow> Inl e
      | Inr df \<Rightarrow>
          (case missing_column df year country market of
             Some k \<Rightarrow> Inl (KeyError k)
           | None \<Rightarrow>
               if filter (row_matches df year country market) (rows df) = [] \<or> columns df = []
               then Inl no_data
               else Inr (PyStr (to_json (fillna (Str [])
                      (df\<lparr>rows := filter (row_matches df year country market) (rows df)\<rparr>))))))"
proof (cases "remote_csv w")
  case (Inl e)
  then show ?thesis by (simp add: fetch_data_try_fst)
next
  case (Inr df)
  show ?thesis
  proof (cases "missing_column df year country market")
    case None
    then have "columns_present df year country market" by (simp add: missing_column_None)
    from apply_filters_ok [OF this] Inr None show ?thesis
      by (simp add: fetch_data_try_fst df_empty_def fillna_def)
  next
    case (Some k)
    from apply_filters_missing [OF this] Inr Some show ?thesis
      by (simp add: fetch_data_try_fst)
  qed
qed

lemma fetch_data_fst:
  "fst (fetch_data year country market w) =
     (case fst (fetch_data_try year country market w) of
        Inl e \<Rightarrow> Inr (error_dict e) | Inr v \<Rightarrow> Inr v)"
  by (cases "fetch_data_try year country market w")
     (simp add: fetch_data_def io_defs split: sum.splits)

lemma fetch_data_api_eq: "fetch_data_api year country market = fetch_data year country market"
proof
  fix w
  obtain r w' where r: "fetch_data_try year country market w = (r, w')"
    by (cases "fetch_data_try year country market w")
  show "fetch_data_api year country market w = fetch_data year country market w"
  proof (cases r)
    case (Inl e)
    with r show ?thesis
      by (simp add: fetch_data_api_def fetch_data_api_try_def fetch_data_def io_defs error_dict_def)
  next
    case (Inr v)
    have "fst (fetch_data_try year country market w) = Inr v"
      using r Inr by simp
    then have "v \<noteq> PyNone"
      by (auto simp: fetch_data_try_fst split: sum.splits if_splits)
    with r Inr show ?thesis
      by (simp add: fetch_data_api_def fetch_data_api_try_def fetch_data_def io_defs error_dict_def)
  qed
qed


lemma fetch_data_result:
  assumes "remote_csv w = Inr df"
  shows "fst (fetch_data year country market w) =
     (case missing_column df year country market of
        Some k \<Rightarrow> Inr (error_dict (KeyError k))
      | None \<Rightarrow>
          if filter (row_matches df year country market) (rows df) = [] \<or> columns df = []
          then Inr (error_dict no_data)
          else Inr (PyStr (to_json (fillna (Str [])
                 (df\<lparr>rows := filter (row_matches df year country market) (rows df)\<rparr>)))))"
  using assms by (simp add: fetch_data_fst fetch_data_try_result split: option.splits)








lemma http_body_api:
  "http_body (fetch_data year country market) w =
     (case fst (fetch_data year country market w) of Inl e \<Rightarrow> Inl e | Inr v \<Rightarrow> Inr (jsonable v))"
  by (simp add: http_body_def)

lemma jsonable_error_dict: "jsonable (error_dict e) = error_body (str_exn e)"
  by (simp add: error_dict_def error_body_def)

lemma keeps_bind:
  assumes "\<And>w. remote_csv (snd (m w)) = remote_csv w"
    and "\<And>x w. remote_csv (snd (f x w)) = remote_csv w"
  shows "remote_csv (snd (bind_io m f w)) = remote_csv w"
proof -
  obtain r w1 where m: "m w = (r, w1)" by (cases "m w")
  with assms(1) [of w] have "remote_csv w1 = remote_csv w" by simp
  with m assms(2) show ?thesis
    by (cases r) (simp_all add: bind_io_def)
qed

lemma keeps_try:
  assumes "\<And>w. remote_csv (snd (m w)) = remote_csv w"
    and "\<And>e w. remote_csv (snd (h e w)) = remote_csv w"
  shows "remote_csv (snd (try_except m h w)) = remote_csv w"
proof -
  obtain r w1 where m: "m w = (r, w1)" by (cases "m w")
  with assms(1) [of w] have "remote_csv w1 = remote_csv w" by simp
  with m assms(2) show ?thesis
    by (cases r) (simp_all add: try_except_def)
qed

lemma fetch_data_try_remote:
  "remote_csv (snd (fetch_data_try year country market w)) = remote_csv w"
  unfolding fetch_data_try_def Let_def
  by (intro keeps_bind) (simp_all add: read_csv_def py_print_def raise_io_def return_io_def apply_filters_remote)

lemma fetch_data_remote:
  "remote_csv (snd (fetch_data year country market w)) = remote_csv w"
  unfolding fetch_data_def
  by (intro keeps_try) (simp_all add: fetch_data_try_remote return_io_def)

lemma fetch_data_fst_remote:
  "remote_csv w = remote_csv w' \<Longrightarrow>
   fst (fetch_data year country market w) = fst (fetch_data year country market w')"
  by (simp add: fetch_data_fst fetch_data_try_result)





lemma apply_filters_Inr:
  assumes "fst (apply_filters year country market df w) = Inr df'"
  shows "columns_present df year country market \<and>
         df' = df\<lparr>rows := filter (row_matches df year country market) (rows df)\<rparr>"
proof (cases "missing_column df year country market")
  case None
  then have p: "columns_present df year country market"
    by (simp add: missing_column_None)
  from apply_filters_ok [OF p, of w] assms p show ?thesis by simp
next
  case (Some k)
  from apply_filters_missing [OF Some, of w] assms show ?thesis by simp
qed

lemma row_matches_country:
  "index_of (columns df) ''country'' = Some i \<Longrightarrow>
   row_matches df year (Some c) market r \<Longrightarrow> r ! i = Str c"
  by (simp add: row_matches_def text_ok_def)

lemma row_matches_market:
  "index_of (columns df) ''mkt_name'' = Some j \<Longrightarrow>
   row_matches df year country (Some m) r \<Longrightarrow> r ! j = Str m"
  by (simp add: row_matches_def text_ok_def)

lemma missing_column_rows_update [simp]:
  "missing_column (df\<lparr>rows := rs\<rparr>) year country market = missing_column df year country market"
  by (simp add: missing_column_def provided_def)

lemma row_matches_rows_update [simp]:
  "row_matches (df\<lparr>rows := rs\<rparr>) year country market = row_matches df year country market"
  by (rule ext) (simp add: row_matches_def)

lemma fetch_data_drop_rows:
  assumes "remote_csv w = Inr df"
    and "\<And>r. row_matches df year country market r \<Longrightarrow> Q r"
  shows "fst (fetch_data year country market w) =
         fst (fetch_data year country market
                (w\<lparr>remote_csv := Inr (df\<lparr>rows := filter Q (rows df)\<rparr>)\<rparr>))"
proof -
  have f: "filter (row_matches df year country market) (filter Q (rows df)) =
        filter (row_matches df year country market) (rows df)"
    using assms(2) by (auto intro: filter_cong)
  define df2 where "df2 = df\<lparr>rows := filter Q (rows df)\<rparr>"
  have h2: "remote_csv (w\<lparr>remote_csv := Inr df2\<rparr>) = Inr df2"
    by simp
  have m2: "missing_column df2 year country market = missing_column df year country market"
    by (simp add: df2_def)
  have s2: "filter (row_matches df2 year country market) (rows df2) =
        filter (row_matches df year country market) (rows df)"
    using f by (simp add: df2_def del: filter_filter)
  have c2: "columns df2 = columns df"
    by (simp add: df2_def)
  have u2: "df2\<lparr>rows := xs\<rparr> = df\<lparr>rows := xs\<rparr>" for xs
    by (simp add: df2_def)
  have "fst (fetch_data year country market w) =
        fst (fetch_data year country market (w\<lparr>remote_csv := Inr df2\<rparr>))"
    by (simp only: fetch_data_result [OF h2] fetch_data_result [OF assms(1)] m2 s2 c2 u2)
  then show ?thesis by (simp only: df2_def)
qed




section \<open>The claims\<close>



text \<open>
  C2. Whatever exception the load-filter-serialize pipeline raises (a failed load, no
  matching row, a missing column), the endpoint returns normally, and the response body
  is the object \<open>{"error": message}\<close> whose message is \<open>str\<close> of that exception.
\<close>

theorem failure_becomes_error_body:
  assumes "fst (fetch_data_try year country market w) = Inl e"
  shows "fst (fetch_data_api year country market w) = Inr (error_dict e) \<and>
         http_body (fetch_data_api year country market) w = Inr (error_body (str_exn e))"
  using assms by (simp add: http_body_api fetch_data_api_eq fetch_data_fst jsonable_error_dict)

theorem failure_becomes_error_body_witness:
  "http_body (fetch_data_api None None None) load_failure_world =
     Inr (error_body ''HTTP Error 404: Not Found'') \<and>
   http_body (fetch_data_api (Some 2099) None None) scenario_world =
     Inr (error_body ''No data found for the specified filters.'') \<and>
   http_body (fetch_data_api (Some 2020) None None) no_year_world =
     Inr (error_body [CHR 0x27, CHR ''y'', CHR ''e'', CHR ''a'', CHR ''r'', CHR 0x27])"
proof -
  have 1: "fst (fetch_data_try None None None load_failure_world) =
      Inl (LoadError ''HTTP Error 404: Not Found'')"
    by code_simp
  have 2: "fst (fetch_data_try (Some 2099) None None scenario_world) =
      Inl (ValueError ''No data found for the specified filters.'')"
    by code_simp
  have 3: "fst (fetch_data_try (Some 2020) None None no_year_world) = Inl (KeyError ''year'')"
    by code_simp
  show ?thesis
    using failure_becomes_error_body [OF 1] failure_becomes_error_body [OF 2]
      failure_becomes_error_body [OF 3]
    by simp
qed

text \<open>
  C3. When the table loads, has a column for every given criterion and no row satisfies
  them all, the response is the error body for
  \<open>No data found for the specified filters.\<close>, and not an empty array.
\<close>

theorem zero_rows_is_error_not_empty_array:
  assumes "remote_csv w = Inr df"
    and "columns_present df year country market"
    and "filter (row_matches df year country market) (rows df) = []"
  shows "fst (fetch_data year country market w) =
           Inr (PyDict [(''error'', PyStr ''No data found for the specified filters.'')]) \<and>
         http_body (fetch_data_api year country market) w =
           Inr (error_body ''No data found for the specified filters.'') \<and>
         http_body (fetch_data_api year country market) w \<noteq> Inr (JArr []) \<and>
         http_body (fetch_data_api year country market) w \<noteq> Inr (JStr ''[]'')"
proof -
  from assms(2) have "missing_column df year country market = None"
    by (simp add: missing_column_None)
  with assms(3) have "fst (fetch_data year country market w) = Inr (error_dict no_data)"
    by (simp add: fetch_data_result [OF assms(1)])
  then show ?thesis
    by (simp add: fetch_data_api_eq http_body_api error_dict_def no_data_def error_body_def)
qed

theorem zero_rows_is_error_not_empty_array_witness:
  "remote_csv scenario_world = Inr scenario \<and>
   columns_present scenario (Some 2099) None None \<and>
   filter (row_matches scenario (Some 2099) None None) (rows scenario) = [] \<and>
   http_body (fetch_data_api (Some 2099) None None) scenario_world =
     Inr (JObj [(''error'', JStr ''No data found for the specified filters.'')])"
proof -
  have h: "remote_csv scenario_world = Inr scenario"
    by (simp add: scenario_world_def)
  have p: "columns_present scenario (Some 2099) None None"
    by code_simp
  have z: "filter (row_matches scenario (Some 2099) None None) (rows scenario) = []"
    by code_simp
  show ?thesis
    using zero_rows_is_error_not_empty_array [OF h p z] h p z
    by (simp add: error_body_def)
qed

text \<open>
  C4. On the success path the endpoint returns the Python string that \<open>to_json\<close>
  produced, and the framework encodes a returned string as a JSON string. On the
  scenario table the body for \<open>year=2020\<close> is a JSON string whose content is the text
  of the array, not the JSON array of objects the claim describes; the error path of
  the same endpoint returns a dictionary, which is encoded once, as an object.
\<close>

theorem success_body_is_double_encoded:
  "http_body (fetch_data_api (Some 2020) None None) scenario_world =
     Inr (JStr ''[{\"year\":2020,\"country\":\"USA\",\"mkt_name\":\"Retail\"}]'') \<and>
   \<not> is_array (JStr ''[{\"year\":2020,\"country\":\"USA\",\"mkt_name\":\"Retail\"}]'') \<and>
   http_body (fetch_data_api (Some 2099) None None) scenario_world =
     Inr (JObj [(''error'', JStr ''No data found for the specified filters.'')])"
  by code_simp





text \<open>
  C7. The response depends on nothing but the query parameters and what the load
  yields: two worlds in which the load yields the same give the same returned value
  and the same body, whatever has been printed before, and a request leaves what the
  load yields as it was. So the same request, repeated, is answered the same.
\<close>

theorem handler_deterministic:
  assumes "remote_csv w = remote_csv w'"
  shows "fst (fetch_data_api year country market w) = fst (fetch_data_api year country market w') \<and>
         http_body (fetch_data_api year country market) w =
           http_body (fetch_data_api year country market) w' \<and>
         remote_csv (snd (fetch_data_api year country market w)) = remote_csv w"
  using fetch_data_fst_remote [OF assms, of year country market]
  by (simp add: fetch_data_api_eq http_body_def fetch_data_remote)

theorem handler_deterministic_witness:
  "stdout (snd (fetch_data_api (Some 2020) None None scenario_world)) =
     [''2'', ''Filtering by year'', ''1''] \<and>
   stdout scenario_world = [] \<and>
   http_body (fetch_data_api (Some 2020) None None)
       (snd (fetch_data_api (Some 2020) None None scenario_world)) =
     http_body (fetch_data_api (Some 2020) None None) scenario_world \<and>
   http_body (fetch_data_api (Some 2020) None None) scenario_world =
     Inr (JStr ''[{\"year\":2020,\"country\":\"USA\",\"mkt_name\":\"Retail\"}]'')"
proof -
  have h: "remote_csv (snd (fetch_data_api (Some 2020) None None scenario_world)) =
      remote_csv scenario_world"
    by code_simp
  have o: "stdout (snd (fetch_data_api (Some 2020) None None scenario_world)) =
     [''2'', ''Filtering by year'', ''1'']" "stdout scenario_world = []"
    by code_simp+
  have b: "http_body (fetch_data_api (Some 2020) None None) scenario_world =
     Inr (JStr ''[{\"year\":2020,\"country\":\"USA\",\"mkt_name\":\"Retail\"}]'')"
    by code_simp
  show ?thesis
    using handler_deterministic [OF h, of "Some 2020" None None] o b by simp
qed



text \<open>
  C9. \<open>fetch_data\<close> always returns, and what it returns is a string or an error
  dictionary, never \<open>None\<close>. So the endpoint takes neither its \<open>None\<close> branch nor its
  exception handler: it returns what \<open>fetch_data\<close> returned, error dictionaries
  included, and never the pair with status 400.
\<close>

theorem fetch_data_total_endpoint_passes_through:
  "(\<exists>v. fst (fetch_data year country market w) = Inr v \<and> v \<noteq> PyNone \<and>
        ((\<exists>s. v = PyStr s) \<or> (\<exists>e. v = error_dict e))) \<and>
   fetch_data_api_try year country market w = fetch_data year country market w \<and>
   fetch_data_api year country market w = fetch_data year country market w \<and>
   fst (fetch_data_api year country market w) \<noteq> Inr (PyTuple [error_dict e, PyInt 400])"
proof -
  obtain r w' where t: "fetch_data_try year country market w = (r, w')"
    by (cases "fetch_data_try year country market w")
  have v: "\<exists>v. fst (fetch_data year country market w) = Inr v \<and> v \<noteq> PyNone \<and>
        ((\<exists>s. v = PyStr s) \<or> (\<exists>e. v = error_dict e))"
  proof (cases r)
    case (Inl e)
    with t show ?thesis by (auto simp: fetch_data_def io_defs error_dict_def)
  next
    case (Inr v)
    with t have "fst (fetch_data_try year country market w) = Inr v" by simp
    then have "\<exists>s. v = PyStr s"
      by (auto simp: fetch_data_try_fst split: sum.splits if_splits)
    with t Inr show ?thesis by (auto simp: fetch_data_def io_defs)
  qed
  then obtain v where v': "fst (fetch_data year country market w) = Inr v" "v \<noteq> PyNone"
    "(\<exists>s. v = PyStr s) \<or> (\<exists>e. v = error_dict e)"
    by blast
  have a: "fetch_data_api_try year country market w = fetch_data year country market w"
    using v'(1,2)
    by (cases "fetch_data year country market w")
       (simp add: fetch_data_api_try_def io_defs)
  have b: "fst (fetch_data_api year country market w) \<noteq> Inr (PyTuple [error_dict e, PyInt 400])"
    using v' by (auto simp: fetch_data_api_eq error_dict_def)
  from v a b show ?thesis by (simp add: fetch_data_api_eq)
qed

theorem fetch_data_total_endpoint_passes_through_witness:
  "fetch_data_api (Some 2099) None None scenario_world =
     fetch_data (Some 2099) None None scenario_world \<and>
   fst (fetch_data (Some 2099) None None scenario_world) =
     Inr (PyDict [(''error'', PyStr ''No data found for the specified filters.'')])"
proof -
  have "fst (fetch_data (Some 2099) None None scenario_world) =
     Inr (PyDict [(''error'', PyStr ''No data found for the specified filters.'')])"
    by code_simp
  then show ?thesis
    using fetch_data_total_endpoint_passes_through [of "Some 2099" None None scenario_world]
    by simp
qed

text \<open>
  C10. Filtering runs on the cells as loaded, before missing cells are replaced. With
  the empty string given as the country (or as the market), no row that survives the
  filters has a missing cell in that column, and the response is the one the table
  would give with all such rows deleted; yet in returned records a missing cell reads
  as the empty string.
\<close>

theorem empty_string_filter_skips_null_cells:
  assumes "remote_csv w = Inr df"
  shows "(index_of (columns df) ''country'' = Some i \<longrightarrow>
            (\<forall>df'. fst (apply_filters year (Some []) market df w) = Inr df' \<longrightarrow>
                   list_all (\<lambda>r. r ! i \<noteq> NaN) (rows df')) \<and>
            fst (fetch_data year (Some []) market w) =
              fst (fetch_data year (Some []) market
                     (w\<lparr>remote_csv := Inr (df\<lparr>rows := filter (\<lambda>r. r ! i \<noteq> NaN) (rows df)\<rparr>)\<rparr>))) \<and>
         (index_of (columns df) ''mkt_name'' = Some j \<longrightarrow>
            (\<forall>df'. fst (apply_filters year country (Some []) df w) = Inr df' \<longrightarrow>
                   list_all (\<lambda>r. r ! j \<noteq> NaN) (rows df')) \<and>
            fst (fetch_data year country (Some []) w) =
              fst (fetch_data year country (Some []) 
                     (w\<lparr>remote_csv := Inr (df\<lparr>rows := filter (\<lambda>r. r ! j \<noteq> NaN) (rows df)\<rparr>)\<rparr>)))"
proof (intro conjI impI allI)
  fix df'
  assume i: "index_of (columns df) ''country'' = Some i"
    and a: "fst (apply_filters year (Some []) market df w) = Inr df'"
  from apply_filters_Inr [OF a]
  have "rows df' = filter (row_matches df year (Some []) market) (rows df)" by simp
  then show "list_all (\<lambda>r. r ! i \<noteq> NaN) (rows df')"
    using row_matches_country [OF i] by (auto simp: list_all_iff)
next
  assume i: "index_of (columns df) ''country'' = Some i"
  show "fst (fetch_data year (Some []) market w) =
        fst (fetch_data year (Some []) market
               (w\<lparr>remote_csv := Inr (df\<lparr>rows := filter (\<lambda>r. r ! i \<noteq> NaN) (rows df)\<rparr>)\<rparr>))"
    using row_matches_country [OF i] by (intro fetch_data_drop_rows [OF assms]) auto
next
  fix df'
  assume j: "index_of (columns df) ''mkt_name'' = Some j"
    and a: "fst (apply_filters year country (Some []) df w) = Inr df'"
  from apply_filters_Inr [OF a]
  have "rows df' = filter (row_matches df year country (Some [])) (rows df)" by simp
  then show "list_all (\<lambda>r. r ! j \<noteq> NaN) (rows df')"
    using row_matches_market [OF j] by (auto simp: list_all_iff)
next
  assume j: "index_of (columns df) ''mkt_name'' = Some j"
  show "fst (fetch_data year country (Some []) w) =
        fst (fetch_data year country (Some [])
               (w\<lparr>remote_csv := Inr (df\<lparr>rows := filter (\<lambda>r. r ! j \<noteq> NaN) (rows df)\<rparr>)\<rparr>))"
    using row_matches_market [OF j] by (intro fetch_data_drop_rows [OF assms]) auto
qed

theorem empty_string_filter_skips_null_cells_witness:
  "remote_csv gaps_world = Inr gaps \<and>
   index_of (columns gaps) ''country'' = Some 1 \<and>
   rows gaps ! 0 ! 1 = NaN \<and>
   fst (apply_filters None (Some []) None gaps gaps_world) =
     Inr (gaps\<lparr>rows := [[Num 2021, Str [], Str ''Retail'', Flt 7 0]]\<rparr>) \<and>
   list_all (\<lambda>r. r ! 1 \<noteq> NaN) (rows (gaps\<lparr>rows := [[Num 2021, Str [], Str ''Retail'', Flt 7 0]]\<rparr>)) \<and>
   fst (fetch_data None (Some []) None gaps_world) =
     Inr (PyStr ''[{\"year\":2021,\"country\":\"\",\"mkt_name\":\"Retail\",\"price\":7.0}]'') \<and>
   fst (fetch_data None None None gaps_world) =
     Inr (PyStr ''[{\"year\":2020,\"country\":\"\",\"mkt_name\":\"Retail\",\"price\":\"\"},{\"year\":2021,\"country\":\"\",\"mkt_name\":\"Retail\",\"price\":7.0}]'')"
proof -
  have h: "remote_csv gaps_world = Inr gaps"
    by (simp add: gaps_world_def)
  have i: "index_of (columns gaps) ''country'' = Some 1"
    by code_simp
  have n: "rows gaps ! 0 ! 1 = NaN"
    by code_simp
  have a: "fst (apply_filters None (Some []) None gaps gaps_world) =
     Inr (gaps\<lparr>rows := [[Num 2021, Str [], Str ''Retail'', Flt 7 0]]\<rparr>)"
    by code_simp
  have r1: "fst (fetch_data None (Some []) None gaps_world) =
     Inr (PyStr ''[{\"year\":2021,\"country\":\"\",\"mkt_name\":\"Retail\",\"price\":7.0}]'')"
    by code_simp
  have r2: "fst (fetch_data None None None gaps_world) =
     Inr (PyStr ''[{\"year\":2020,\"country\":\"\",\"mkt_name\":\"Retail\",\"price\":\"\"},{\"year\":2021,\"country\":\"\",\"mkt_name\":\"Retail\",\"price\":7.0}]'')"
    by code_simp
  have "list_all (\<lambda>r. r ! 1 \<noteq> NaN) (rows (gaps\<lparr>rows := [[Num 2021, Str [], Str ''Retail'', Flt 7 0]]\<rparr>))"
    using empty_string_filter_skips_null_cells [OF h, of 1 None None] i a by blast
  with h i n a r1 r2 show ?thesis by blast
qed

end
